theory Spec2Isabelle
  imports Complex_Main "HOL-Library.Sublist"
begin

section \<open>Configuration\<close>

text \<open>
  The constants of the \<^verbatim>\<open>CONFIG\<close> object of the recommendation engine. Times are
  milliseconds, as \<^verbatim>\<open>Date.now()\<close> counts them.
\<close>

definition CACHE_DURATION :: int where
  "CACHE_DURATION = 1800000"

definition MAX_PRODUCTS :: nat where
  "MAX_PRODUCTS = 250"

definition RAIL_SIZE :: nat where
  "RAIL_SIZE = 6"

record tag_weights =
  w_interest :: rat
  w_occasion :: rat
  w_recipient :: rat
  w_style :: rat
  w_humour :: rat

definition TAG_WEIGHTS :: tag_weights where
  "TAG_WEIGHTS = \<lparr>w_interest = 3, w_occasion = 2, w_recipient = 2, w_style = 1, w_humour = 1 / 2\<rparr>"

definition max_per_interest :: nat where
  "max_per_interest = 2"

definition max_per_style :: nat where
  "max_per_style = 2"

section \<open>Tags\<close>

text \<open>
  The object \<^verbatim>\<open>parseTags\<close> builds: one array of values for each of the five
  categories, in the order the tags were met, duplicates kept.
\<close>

record parsed_tags =
  interest :: "string list"
  occasion :: "string list"
  recipient :: "string list"
  style :: "string list"
  humour :: "string list"

definition no_tags :: parsed_tags where
  "no_tags = \<lparr>interest = [], occasion = [], recipient = [], style = [], humour = []\<rparr>"

text \<open>
  Strings are lists of 8-bit characters here, so \<^verbatim>\<open>toLowerCase\<close> and \<^verbatim>\<open>trim\<close> are
  modelled on the ASCII range: the 26 capital letters are lowered, and the six ASCII
  white-space characters are trimmed.
\<close>

definition lower_char :: "char \<Rightarrow> char" where
  "lower_char c =
     (case map_of (zip ''ABCDEFGHIJKLMNOPQRSTUVWXYZ'' ''abcdefghijklmnopqrstuvwxyz'') c of
        None \<Rightarrow> c
      | Some l \<Rightarrow> l)"

definition toLowerCase :: "string \<Rightarrow> string" where
  "toLowerCase s = map lower_char s"

definition white_space :: "char \<Rightarrow> bool" where
  "white_space c = (c \<in> set [CHR '' '', CHR 0x09, CHR 0x0A, CHR 0x0B, CHR 0x0C, CHR 0x0D])"

definition trim :: "string \<Rightarrow> string" where
  "trim s = rev (dropWhile white_space (rev (dropWhile white_space s)))"

text \<open>\<^verbatim>\<open>s.split(sep)\<close> for a one-character separator: the empty string gives one empty part.\<close>

fun split :: "char \<Rightarrow> string \<Rightarrow> string list" where
  "split sep [] = [[]]"
| "split sep (c # cs) =
     (if c = sep then [] # split sep cs
      else (case split sep cs of
              [] \<Rightarrow> [[c]]
            | part # parts \<Rightarrow> (c # part) # parts))"

text \<open>
  One round of the \<^verbatim>\<open>forEach\<close> in \<^verbatim>\<open>parseTags\<close>: a tag counts when it has exactly
  two parts around \<^verbatim>\<open>:\<close> and the first is an own property of \<^verbatim>\<open>parsed\<close>, that is,
  one of the five categories.
\<close>

definition push_tag :: "parsed_tags \<Rightarrow> string \<Rightarrow> parsed_tags" where
  "push_tag parsed tag =
     (let tagLower = trim (toLowerCase tag);
          parts = split CHR '':'' tagLower
      in case parts of
           [category, val] \<Rightarrow>
             if category = ''interest'' then parsed\<lparr>interest := interest parsed @ [val]\<rparr>
             else if category = ''occasion'' then parsed\<lparr>occasion := occasion parsed @ [val]\<rparr>
             else if category = ''recipient'' then parsed\<lparr>recipient := recipient parsed @ [val]\<rparr>
             else if category = ''style'' then parsed\<lparr>style := style parsed @ [val]\<rparr>
             else if category = ''humour'' then parsed\<lparr>humour := humour parsed @ [val]\<rparr>
             else parsed
         | _ \<Rightarrow> parsed)"

text \<open>
  \<^verbatim>\<open>parseTags(tags)\<close>. The argument is \<open>None\<close> when \<^verbatim>\<open>tags\<close> is missing or is not
  an array, which returns the empty object at once.
\<close>

definition parseTags :: "string list option \<Rightarrow> parsed_tags" where
  "parseTags tags =
     (case tags of
        None \<Rightarrow> no_tags
      | Some ts \<Rightarrow> foldl push_tag no_tags ts)"

section \<open>Scoring\<close>

text \<open>
  JavaScript numbers are modelled by rationals: every score is a sum of quotients of two
  set sizes times a weight. \<^verbatim>\<open>new Set(arr)\<close> is the set of the array's elements and
  \<^verbatim>\<open>.size\<close> its cardinality.
\<close>

definition jaccardSimilarity :: "string list \<Rightarrow> string list \<Rightarrow> rat" where
  "jaccardSimilarity arr1 arr2 =
     (if arr1 = [] \<or> arr2 = [] then 0
      else
        let set1 = set arr1;
            set2 = set arr2;
            intersection = {x \<in> set1. x \<in> set2};
            union = set1 \<union> set2
        in of_nat (card intersection) / of_nat (card union))"

text \<open>
  \<^verbatim>\<open>scoreProduct(productTags, anchorTags, mode)\<close>. The mode is the string the caller
  passes: anything other than \<^verbatim>\<open>'interest'\<close> and \<^verbatim>\<open>'occasion'\<close> takes the last branch.
  Each \<^verbatim>\<open>score += ...\<close> under its guard is one line of the \<open>let\<close>.
\<close>

definition scoreProduct :: "parsed_tags \<Rightarrow> parsed_tags \<Rightarrow> string \<Rightarrow> rat" where
  "scoreProduct productTags anchorTags mode =
     (let score = 0 in
      if mode = ''interest'' then
        (if interest anchorTags \<noteq> [] \<and> interest productTags \<noteq> []
         then score + jaccardSimilarity (interest productTags) (interest anchorTags)
                        * w_interest TAG_WEIGHTS * 3
         else score)
      else if mode = ''occasion'' then
        (if occasion anchorTags \<noteq> [] \<and> occasion productTags \<noteq> []
         then score + jaccardSimilarity (occasion productTags) (occasion anchorTags)
                        * w_occasion TAG_WEIGHTS * 3
         else score)
      else
        let score = (if interest anchorTags \<noteq> [] \<and> interest productTags \<noteq> []
                     then score + jaccardSimilarity (interest productTags) (interest anchorTags)
                                    * w_interest TAG_WEIGHTS
                     else score);
            score = (if occasion anchorTags \<noteq> [] \<and> occasion productTags \<noteq> []
                     then score + jaccardSimilarity (occasion productTags) (occasion anchorTags)
                                    * w_occasion TAG_WEIGHTS
                     else score);
            score = (if recipient anchorTags \<noteq> [] \<and> recipient productTags \<noteq> []
                     then score + jaccardSimilarity (recipient productTags) (recipient anchorTags)
                                    * w_recipient TAG_WEIGHTS
                     else score);
            score = (if style anchorTags \<noteq> [] \<and> style productTags \<noteq> []
                     then score + jaccardSimilarity (style productTags) (style anchorTags)
                                    * w_style TAG_WEIGHTS
                     else score);
            score = (if humour anchorTags \<noteq> [] \<and> humour productTags \<noteq> []
                     then score + jaccardSimilarity (humour productTags) (humour anchorTags)
                                    * w_humour TAG_WEIGHTS
                     else score)
        in score)"

section \<open>Catalog items\<close>

text \<open>
  The object \<^verbatim>\<open>load\<close> builds for each product of the listing; the fields the engine
  never reads (image, product type, vendor) are left out.
\<close>

record product =
  handle :: string
  title :: string
  tags :: "string list option"
  parsedTags :: parsed_tags
  price :: int
  available :: bool
  url :: string

text \<open>An element of the array \<^verbatim>\<open>scored\<close>: a product with its score.\<close>

record scored_product =
  product :: product
  score :: rat

section \<open>Diversity filtering\<close>

text \<open>
  \<^verbatim>\<open>interestCounts\<close> and \<^verbatim>\<open>styleCounts\<close> are plain objects indexed by tag value. A
  property read gives \<^verbatim>\<open>undefined\<close>, a number, or something that is no number: an
  object created by \<^verbatim>\<open>{}\<close> already answers for the names it inherits from
  \<^verbatim>\<open>Object.prototype\<close> with a function (or, for \<^verbatim>\<open>__proto__\<close>, the prototype).
\<close>

datatype jsval = Undefined | Num nat | NotNumeric

type_synonym counts = "string \<Rightarrow> jsval"

definition object_prototype_keys :: "string list" where
  "object_prototype_keys =
     [''constructor'', ''__proto__'', ''hasOwnProperty'', ''isPrototypeOf'',
      ''propertyIsEnumerable'', ''toString'', ''toLocaleString'', ''valueOf'',
      ''__defineGetter__'', ''__defineSetter__'', ''__lookupGetter__'', ''__lookupSetter__'']"

definition empty_object :: counts where
  "empty_object k = (if k \<in> set object_prototype_keys then NotNumeric else Undefined)"

text \<open>
  \<^verbatim>\<open>v >= n\<close>: \<^verbatim>\<open>undefined\<close>, a function, an object and the strings made from them
  all convert to \<^verbatim>\<open>NaN\<close>, and every comparison with \<^verbatim>\<open>NaN\<close> is false.
\<close>

fun at_least :: "jsval \<Rightarrow> nat \<Rightarrow> bool" where
  "at_least (Num c) n = (n \<le> c)"
| "at_least Undefined n = False"
| "at_least NotNumeric n = False"

text \<open>
  \<^verbatim>\<open>(v || 0) + 1\<close>: a missing count starts at one; a function or an object is truthy
  and \<^verbatim>\<open>+ 1\<close> appends to its string form, which again is no number (and the
  assignment to \<^verbatim>\<open>__proto__\<close> of a string is ignored).
\<close>

fun increment :: "jsval \<Rightarrow> jsval" where
  "increment Undefined = Num 1"
| "increment (Num c) = Num (c + 1)"
| "increment NotNumeric = NotNumeric"

text \<open>The two checking loops: leave with \<^verbatim>\<open>true\<close> at the first value at its limit.\<close>

fun limit_reached :: "counts \<Rightarrow> nat \<Rightarrow> string list \<Rightarrow> bool" where
  "limit_reached cnt limit [] = False"
| "limit_reached cnt limit (v # vs) =
     (if at_least (cnt v) limit then True else limit_reached cnt limit vs)"

text \<open>The two updating loops: one increment for each element of the array.\<close>

fun update_counts :: "counts \<Rightarrow> string list \<Rightarrow> counts" where
  "update_counts cnt [] = cnt"
| "update_counts cnt (v # vs) = update_counts (cnt(v := increment (cnt v))) vs"

record dstate =
  interestCounts :: counts
  styleCounts :: counts
  result :: "scored_product list"

definition diversify_init :: dstate where
  "diversify_init = \<lparr>interestCounts = empty_object, styleCounts = empty_object, result = []\<rparr>"

text \<open>The body of the main loop of \<^verbatim>\<open>diversify\<close> for one item.\<close>

definition diversify_step :: "dstate \<Rightarrow> scored_product \<Rightarrow> dstate" where
  "diversify_step st item =
     (let interests = interest (parsedTags (product item));
          styles = style (parsedTags (product item));
          skipInterest = limit_reached (interestCounts st) max_per_interest interests;
          skipStyle = limit_reached (styleCounts st) max_per_style styles
      in if skipInterest \<and> skipStyle then st
         else \<lparr>interestCounts = update_counts (interestCounts st) interests,
               styleCounts = update_counts (styleCounts st) styles,
               result = result st @ [item]\<rparr>)"

fun diversify_loop :: "scored_product list \<Rightarrow> dstate \<Rightarrow> dstate" where
  "diversify_loop [] st = st"
| "diversify_loop (item # rest) st = diversify_loop rest (diversify_step st item)"

definition diversify :: "scored_product list \<Rightarrow> scored_product list" where
  "diversify scoredProducts = result (diversify_loop scoredProducts diversify_init)"

section \<open>The catalog and its cache\<close>

text \<open>
  An element of \<^verbatim>\<open>data.products\<close> in a listing response, with the fields the code
  reads: \<^verbatim>\<open>raw_price\<close> is \<^verbatim>\<open>variants?.[0]?.price\<close>, absent when the chain ends early.
\<close>

record raw_product =
  raw_handle :: string
  raw_title :: string
  raw_tags :: "string list option"
  raw_price :: "int option"
  raw_available :: bool

definition to_product :: "raw_product \<Rightarrow> product" where
  "to_product p =
     \<lparr>handle = raw_handle p,
      title = raw_title p,
      tags = raw_tags p,
      parsedTags = parseTags (raw_tags p),
      price = (case raw_price p of None \<Rightarrow> 0 | Some v \<Rightarrow> v),
      available = raw_available p,
      url = ''/products/'' @ raw_handle p\<rparr>"

text \<open>
  What a \<^verbatim>\<open>fetch\<close> of a product listing comes to: the promise rejects, or it gives
  a response with its \<^verbatim>\<open>ok\<close> flag and a body. The body is \<open>None\<close> when
  \<^verbatim>\<open>response.json()\<close> rejects, \<^verbatim>\<open>data.products\<close> is no array, or the chain over
  it throws on an element. Every one of these throws inside the \<^verbatim>\<open>try\<close> block of
  its caller.
\<close>

datatype response = NetworkError | HttpResponse bool "raw_product list option"

datatype failure = FetchRejected | NotOk | BadBody

fun read_products :: "response \<Rightarrow> failure + raw_product list" where
  "read_products NetworkError = Inl FetchRejected"
| "read_products (HttpResponse ok body) =
     (if \<not> ok then Inl NotOk
      else case body of None \<Rightarrow> Inl BadBody | Some ps \<Rightarrow> Inr ps)"

text \<open>The fields of a \<^verbatim>\<open>ProductCatalog\<close> instance.\<close>

record catalog =
  products :: "product list"
  loading :: bool
  loaded :: bool

definition new_catalog :: catalog where
  "new_catalog = \<lparr>products = [], loading = False, loaded = False\<rparr>"

text \<open>
  The entry of \<^verbatim>\<open>sessionStorage\<close> under \<^verbatim>\<open>CACHE_KEY\<close>: absent, a string that
  \<^verbatim>\<open>JSON.parse\<close> rejects, or the timestamp and products \<^verbatim>\<open>saveToCache\<close> wrote.
\<close>

datatype stored = NoEntry | Unreadable | Entry int "product list"

text \<open>
  \<^verbatim>\<open>loadFromCache()\<close> at clock reading \<open>now\<close>: the products, or \<open>None\<close> for
  \<^verbatim>\<open>null\<close>, with the storage it leaves. An entry that is too old is removed.
\<close>

definition loadFromCache :: "stored \<Rightarrow> int \<Rightarrow> product list option \<times> stored" where
  "loadFromCache st now =
     (case st of
        NoEntry \<Rightarrow> (None, NoEntry)
      | Unreadable \<Rightarrow> (None, Unreadable)
      | Entry timestamp ps \<Rightarrow>
          let age = now - timestamp
          in if age > CACHE_DURATION then (None, NoEntry) else (Some ps, st))"

text \<open>
  \<^verbatim>\<open>saveToCache(products)\<close> at clock reading \<open>now\<close>; \<open>writable\<close> is false when
  \<^verbatim>\<open>setItem\<close> throws (storage full or denied), which is caught and leaves the storage
  as it was.
\<close>

definition saveToCache :: "stored \<Rightarrow> bool \<Rightarrow> int \<Rightarrow> product list \<Rightarrow> stored" where
  "saveToCache st writable now ps = (if writable then Entry now ps else st)"

text \<open>
  \<^verbatim>\<open>load()\<close> runs in two parts. The first runs at the call, up to the first
  \<^verbatim>\<open>await\<close>: it returns at once, or starts polling for an earlier load, or issues the
  fetch. The second runs when the fetch has settled. Between the two \<^verbatim>\<open>await\<close>s of
  the \<^verbatim>\<open>try\<close> block the instance is not touched, so they are one step here.
\<close>

datatype progress = Returned "product list" | Waiting | Fetching

definition load_begin :: "catalog \<Rightarrow> stored \<Rightarrow> int \<Rightarrow> progress \<times> catalog \<times> stored" where
  "load_begin c st now =
     (if loaded c then (Returned (products c), c, st)
      else if loading c then (Waiting, c, st)
      else
        let c = c\<lparr>loading := True\<rparr>;
            (cached, st) = loadFromCache st now
        in case cached of
             Some ps \<Rightarrow> (Returned ps, c\<lparr>products := ps, loaded := True, loading := False\<rparr>, st)
           | None \<Rightarrow> (Fetching, c, st))"

definition load_end ::
  "catalog \<Rightarrow> stored \<Rightarrow> response \<Rightarrow> bool \<Rightarrow> int \<Rightarrow> product list \<times> catalog \<times> stored" where
  "load_end c st resp writable now =
     (case read_products resp of
        Inr raw \<Rightarrow>
          let ps = map to_product raw;
              st = saveToCache st writable now ps
          in (ps, c\<lparr>products := ps, loaded := True, loading := False\<rparr>, st)
      | Inl err \<Rightarrow> ([], c\<lparr>loading := False\<rparr>, st))"

text \<open>
  What the page answers during one call: the clock at \<^verbatim>\<open>loadFromCache\<close>, the
  response to the catalog fetch, whether the storage takes a write and the clock at
  \<^verbatim>\<open>saveToCache\<close>, and the response to a bestseller fetch with a given limit.
\<close>

record env =
  clock :: int
  catalog_response :: response
  writable :: bool
  save_clock :: int
  bestseller_response :: "nat \<Rightarrow> response"

text \<open>
  One \<^verbatim>\<open>load()\<close> with no other call in between: the value the promise resolves to,
  the instance and the storage afterwards, and the number of fetches issued. A call that
  finds \<^verbatim>\<open>loading\<close> set polls for \<^verbatim>\<open>loaded\<close>; with nothing else running it finds
  it unset at every tick and never resolves, which is \<open>None\<close>.
\<close>

definition load :: "catalog \<Rightarrow> stored \<Rightarrow> env \<Rightarrow> (product list \<times> catalog \<times> stored \<times> nat) option" where
  "load c st e =
     (case load_begin c st (clock e) of
        (Returned ps, c', st') \<Rightarrow> Some (ps, c', st', 0)
      | (Waiting, c', st') \<Rightarrow> None
      | (Fetching, c', st') \<Rightarrow>
          (case load_end c' st' (catalog_response e) (writable e) (save_clock e) of
             (ps, c'', st'') \<Rightarrow> Some (ps, c'', st'', 1)))"

definition findByHandle :: "product list \<Rightarrow> string \<Rightarrow> product option" where
  "findByHandle ps h = find (\<lambda>p. handle p = h) ps"

section \<open>Recommendations\<close>

text \<open>
  \<^verbatim>\<open>getFallbackRecommendations(limit)\<close>, given how the shop answers a bestseller
  request for each limit.
\<close>

definition getFallbackRecommendations :: "(nat \<Rightarrow> response) \<Rightarrow> nat \<Rightarrow> string list" where
  "getFallbackRecommendations server limit =
     (case read_products (server limit) of
        Inr raw \<Rightarrow> take limit (map raw_handle (filter raw_available raw))
      | Inl err \<Rightarrow> [])"

text \<open>
  The chain that builds \<^verbatim>\<open>scored\<close>. \<^verbatim>\<open>Array.prototype.sort\<close> is stable, and so is
  \<^const>\<open>sort_key\<close>; the comparator \<^verbatim>\<open>b.score - a.score\<close> puts higher scores first.
\<close>

definition scored :: "product list \<Rightarrow> string \<Rightarrow> parsed_tags \<Rightarrow> string \<Rightarrow> scored_product list" where
  "scored ps anchorHandle anchorTags mode =
     sort_key (\<lambda>item. - score item)
       (filter (\<lambda>item. score item > 0)
         (map (\<lambda>p. \<lparr>product = p, score = scoreProduct (parsedTags p) anchorTags mode\<rparr>)
           (filter available
             (filter (\<lambda>p. handle p \<noteq> anchorHandle) ps))))"

text \<open>
  \<^verbatim>\<open>getRecommendations\<close> from the line after \<^verbatim>\<open>await this.catalog.load()\<close>, on
  the products the instance then holds. The timing and the analytics event, which do not
  touch the list, are left out.
\<close>

definition recommendations :: "product list \<Rightarrow> (nat \<Rightarrow> response) \<Rightarrow> string \<Rightarrow> string \<Rightarrow> string list" where
  "recommendations ps server anchorHandle mode =
     (case findByHandle ps anchorHandle of
        None \<Rightarrow> getFallbackRecommendations server RAIL_SIZE
      | Some anchorProduct \<Rightarrow>
          let anchorTags = parsedTags anchorProduct;
              diversified = diversify (scored ps anchorHandle anchorTags mode);
              recommended = map (\<lambda>item. handle (product item)) (take RAIL_SIZE diversified);
              recommended =
                (if length recommended < RAIL_SIZE then
                   let fillCount = RAIL_SIZE - length recommended;
                       bestsellers = getFallbackRecommendations server fillCount
                   in recommended @ filter (\<lambda>h. h \<notin> set recommended) bestsellers
                 else recommended)
          in take RAIL_SIZE recommended)"


section \<open>Several callers of one catalog\<close>

text \<open>
  The page runs one task at a time, and a call of \<^verbatim>\<open>load()\<close> is suspended only at
  its \<^verbatim>\<open>await\<close>s and between two firings of its 100 ms interval. So a run is a
  sequence of events: a caller calls \<^verbatim>\<open>load()\<close>, the fetch in flight settles, or the
  interval of a waiting caller fires. The state holds the instance and the storage, the
  caller whose fetch is in flight, the callers that poll, the promises resolved so far
  with their values, and the number of fetches issued.
\<close>

record system =
  cat :: catalog
  store :: stored
  in_flight :: "nat option"
  waiters :: "nat list"
  resolved :: "(nat \<times> product list) list"
  fetches :: nat

datatype event =
    Call nat int
  | Settle response bool int
  | Tick nat

definition start :: "stored \<Rightarrow> system" where
  "start st = \<lparr>cat = new_catalog, store = st, in_flight = None, waiters = [],
               resolved = [], fetches = 0\<rparr>"

fun step :: "system \<Rightarrow> event \<Rightarrow> system" where
  "step s (Call caller now) =
     (case load_begin (cat s) (store s) now of
        (Returned ps, c, st) \<Rightarrow> s\<lparr>cat := c, store := st, resolved := resolved s @ [(caller, ps)]\<rparr>
      | (Waiting, c, st) \<Rightarrow> s\<lparr>waiters := waiters s @ [caller]\<rparr>
      | (Fetching, c, st) \<Rightarrow>
          s\<lparr>cat := c, store := st, in_flight := Some caller, fetches := fetches s + 1\<rparr>)"
| "step s (Settle resp can_write now) =
     (case in_flight s of
        None \<Rightarrow> s
      | Some caller \<Rightarrow>
          (case load_end (cat s) (store s) resp can_write now of
             (ps, c, st) \<Rightarrow>
               s\<lparr>cat := c, store := st, in_flight := None,
                 resolved := resolved s @ [(caller, ps)]\<rparr>))"
| "step s (Tick caller) =
     (if caller \<in> set (waiters s) \<and> loaded (cat s)
      then s\<lparr>waiters := removeAll caller (waiters s),
             resolved := resolved s @ [(caller, products (cat s))]\<rparr>
      else s)"

fun run :: "system \<Rightarrow> event list \<Rightarrow> system" where
  "run s [] = s"
| "run s (ev # evs) = run (step s ev) evs"

section \<open>Notions the properties are stated with\<close>

text \<open>
  The running count of a tag value among the items selected so far: one for every
  occurrence of the value in the interest (or style) array of a selected item.
\<close>

definition running_count ::
  "(parsed_tags \<Rightarrow> string list) \<Rightarrow> scored_product list \<Rightarrow> string \<Rightarrow> nat" where
  "running_count category selected v =
     sum_list (map (\<lambda>item. count_list (category (parsedTags (product item))) v) selected)"

text \<open>
  A value the filter sees at its limit: two occurrences or more among the selected items,
  and a name for which the counting object holds a number at all.
\<close>

definition capped :: "(parsed_tags \<Rightarrow> string list) \<Rightarrow> scored_product list \<Rightarrow> string \<Rightarrow> bool" where
  "capped category selected v =
     (v \<notin> set object_prototype_keys \<and> 2 \<le> running_count category selected v)"

text \<open>What the counting object holds for a value that occurred \<open>n\<close> times.\<close>

definition tally :: "string \<Rightarrow> nat \<Rightarrow> jsval" where
  "tally v n =
     (if v \<in> set object_prototype_keys then NotNumeric
      else if n = 0 then Undefined else Num n)"

text \<open>
  The skip rule in the words of the specification: every interest value and every style
  value of the candidate has reached the cap of 2.
\<close>

definition claimed_skip :: "scored_product list \<Rightarrow> scored_product \<Rightarrow> bool" where
  "claimed_skip selected c =
     ((\<forall>i\<in>set (interest (parsedTags (product c))). 2 \<le> running_count interest selected i) \<and>
      (\<forall>s\<in>set (style (parsedTags (product c))). 2 \<le> running_count style selected s))"

definition carries_both :: "string \<Rightarrow> string \<Rightarrow> scored_product \<Rightarrow> bool" where
  "carries_both i s item =
     (i \<in> set (interest (parsedTags (product item))) \<and>
      s \<in> set (style (parsedTags (product item))))"

text \<open>
  The items \<^verbatim>\<open>diversified.slice(0, CONFIG.RAIL_SIZE)\<close> of \<^verbatim>\<open>getRecommendations\<close>, before
  their handles are taken and bestsellers are appended.
\<close>

definition selection ::
  "product list \<Rightarrow> string \<Rightarrow> parsed_tags \<Rightarrow> string \<Rightarrow> scored_product list" where
  "selection ps anchorHandle anchorTags mode =
     take RAIL_SIZE (diversify (scored ps anchorHandle anchorTags mode))"

text \<open>
  The diversity cap in the words of the specification: the distinct returned handles
  whose product carries the interest value, the products of the eligible pool (available,
  not the anchor) that carry it, and the cap itself with its exception.
\<close>

definition returned_with :: "product list \<Rightarrow> string list \<Rightarrow> string \<Rightarrow> string list" where
  "returned_with ps returned v =
     filter (\<lambda>h. case findByHandle ps h of
                   None \<Rightarrow> False
                 | Some p \<Rightarrow> v \<in> set (interest (parsedTags p)))
            (remdups returned)"

definition pool_with :: "product list \<Rightarrow> string \<Rightarrow> string \<Rightarrow> product list" where
  "pool_with ps anchorHandle v =
     filter (\<lambda>p. v \<in> set (interest (parsedTags p)))
       (filter available (filter (\<lambda>p. handle p \<noteq> anchorHandle) ps))"

definition interest_cap_claim :: "product list \<Rightarrow> string \<Rightarrow> string list \<Rightarrow> string \<Rightarrow> bool" where
  "interest_cap_claim ps anchorHandle returned v =
     (length (returned_with ps returned v) \<le> 2 \<or> length (pool_with ps anchorHandle v) < 2)"

text \<open>
  The share of one category in a score: the Jaccard similarity of the two value arrays
  times the weight.
\<close>

definition contribution ::
  "(parsed_tags \<Rightarrow> string list) \<Rightarrow> rat \<Rightarrow> parsed_tags \<Rightarrow> parsed_tags \<Rightarrow> rat" where
  "contribution category weight productTags anchorTags =
     jaccardSimilarity (category productTags) (category anchorTags) * weight"

section \<open>Sample data\<close>

text \<open>A product as the shop lists it, available, with the given handle and tags.\<close>

definition listing :: "string \<Rightarrow> string list \<Rightarrow> raw_product" where
  "listing h ts =
     \<lparr>raw_handle = h, raw_title = h, raw_tags = Some ts, raw_price = None, raw_available = True\<rparr>"

definition candidate :: "string \<Rightarrow> string list \<Rightarrow> scored_product" where
  "candidate h ts = \<lparr>product = to_product (listing h ts), score = 1\<rparr>"

text \<open>A shop that answers every listing request with the first \<open>limit\<close> of its products.\<close>

definition shop :: "raw_product list \<Rightarrow> nat \<Rightarrow> response" where
  "shop ps limit = HttpResponse True (Some (take limit ps))"

definition offline :: "nat \<Rightarrow> response" where
  "offline limit = NetworkError"

definition visit :: "int \<Rightarrow> response \<Rightarrow> (nat \<Rightarrow> response) \<Rightarrow> env" where
  "visit now resp server =
     \<lparr>clock = now, catalog_response = resp, writable = True, save_clock = now,
      bestseller_response = server\<rparr>"

definition two_cute_frogs :: "scored_product list" where
  "two_cute_frogs =
     [candidate ''frog-1'' [''interest:frogs'', ''style:cute''],
      candidate ''frog-2'' [''interest:frogs'', ''style:cute'']]"

definition third_cute_frog :: scored_product where
  "third_cute_frog = candidate ''frog-3'' [''interest:frogs'', ''style:cute'']"

definition frog_and_dog :: scored_product where
  "frog_and_dog = candidate ''frog-dog'' [''interest:frogs'', ''interest:dogs'', ''style:cute'']"

definition bold_frog :: scored_product where
  "bold_frog = candidate ''frog-4'' [''Interest:Frogs'', ''style:bold'']"

definition plain_card :: scored_product where
  "plain_card = candidate ''plain'' [''occasion:birthday'']"

definition bold_card :: scored_product where
  "bold_card = candidate ''bold'' [''style:bold'', ''recipient:dad'']"

definition dog_card :: scored_product where
  "dog_card = candidate ''dog'' [''interest:dogs'']"

definition three_constructors :: "scored_product list" where
  "three_constructors =
     [candidate ''kit-1'' [''interest:constructor'', ''style:cute''],
      candidate ''kit-2'' [''interest:constructor'', ''style:cute''],
      candidate ''kit-3'' [''interest:constructor'', ''style:cute'']]"

definition seven_frogs :: "raw_product list" where
  "seven_frogs =
     [listing ''a'' [''interest:frogs''], listing ''b'' [''interest:frogs''],
      listing ''c'' [''interest:frogs''], listing ''d'' [''interest:frogs''],
      listing ''e'' [''interest:frogs''], listing ''f'' [''interest:frogs''],
      listing ''g'' [''interest:frogs'']]"


definition plain_frogs :: "raw_product list" where
  "plain_frogs =
     [listing ''a'' [''interest:frogs''], listing ''b'' [''interest:frogs''],
      listing ''c'' [''interest:frogs''], listing ''d'' [''interest:frogs'']]"

definition cute_frogs :: "raw_product list" where
  "cute_frogs =
     [listing ''a'' [''interest:frogs'', ''style:cute''],
      listing ''b'' [''interest:frogs'', ''style:cute''],
      listing ''c'' [''interest:frogs'', ''style:cute''],
      listing ''d'' [''interest:frogs'', ''style:cute'']]"

definition two_frogs :: "raw_product list" where
  "two_frogs = [listing ''a'' [''interest:frogs''], listing ''b'' [''interest:frogs'']]"

definition bestsellers :: "raw_product list" where
  "bestsellers =
     [listing ''a'' [''interest:frogs''], listing ''b'' [''interest:frogs''],
      listing ''z'' [''interest:zebras'']]"

definition ready_frogs :: catalog where
  "ready_frogs = \<lparr>products = map to_product two_frogs, loading = False, loaded = True\<rparr>"

definition frog_birthday :: parsed_tags where
  "frog_birthday = parseTags (Some [''interest:frogs'', ''occasion:birthday'', ''style:cute''])"

definition frog_dog_thanks :: parsed_tags where
  "frog_dog_thanks =
     parseTags (Some [''interest:frogs'', ''interest:dogs'', ''occasion:thank-you'', ''style:cute''])"

section \<open>The diversity filter\<close>

lemma diversify_loop_append:
  "diversify_loop (xs @ ys) st = diversify_loop ys (diversify_loop xs st)"
  by (induction xs arbitrary: st) simp_all

lemma limit_reached_iff:
  "limit_reached cnt limit vs \<longleftrightarrow> (\<exists>v\<in>set vs. at_least (cnt v) limit)"
  by (induction vs) auto

lemma update_counts_apply:
  "update_counts cnt vs v = (increment ^^ count_list vs v) (cnt v)"
proof (induction vs arbitrary: cnt)
  case Nil
  show ?case by simp
next
  case (Cons a vs)
  show ?case
    by (simp add: Cons.IH funpow_swap1)
qed

lemma increment_tally: "(increment ^^ k) (tally v n) = tally v (n + k)"
  by (induction k) (auto simp: tally_def)

lemma at_least_tally:
  "at_least (tally v n) 2 \<longleftrightarrow> v \<notin> set object_prototype_keys \<and> 2 \<le> n"
  by (auto simp: tally_def)

lemma running_count_snoc:
  "running_count category (sel @ [c]) v =
     running_count category sel v + count_list (category (parsedTags (product c))) v"
  by (simp add: running_count_def)

text \<open>
  The two counting objects hold, for every value, the number of its occurrences among
  the items selected so far.
\<close>

lemma counts_tally:
  "interestCounts (diversify_loop xs diversify_init) v
     = tally v (running_count interest (diversify xs) v) \<and>
   styleCounts (diversify_loop xs diversify_init) v
     = tally v (running_count style (diversify xs) v)"
proof (induction xs rule: rev_induct)
  case Nil
  show ?case
    by (simp add: diversify_def diversify_init_def empty_object_def tally_def running_count_def)
next
  case (snoc x xs)
  then show ?case
    by (simp add: diversify_def diversify_loop_append diversify_step_def Let_def
        update_counts_apply increment_tally running_count_snoc)
qed

text \<open>What one more candidate at the end of the input does to the output.\<close>

lemma diversify_snoc:
  "diversify (pre @ [c]) =
     (if (\<exists>i\<in>set (interest (parsedTags (product c))). capped interest (diversify pre) i) \<and>
         (\<exists>s\<in>set (style (parsedTags (product c))). capped style (diversify pre) s)
      then diversify pre else diversify pre @ [c])"
proof -
  have "diversify (pre @ [c]) = result (diversify_step (diversify_loop pre diversify_init) c)"
    by (simp add: diversify_def diversify_loop_append)
  then show ?thesis
    by (simp add: diversify_step_def Let_def limit_reached_iff counts_tally at_least_tally
        capped_def max_per_interest_def max_per_style_def diversify_def)
qed

lemma diversify_subseq: "subseq (diversify xs) xs"
proof (induction xs rule: rev_induct)
  case Nil
  show ?case by (simp add: diversify_def diversify_init_def)
next
  case (snoc x xs)
  then show ?case
    by (auto simp: diversify_snoc intro: list_emb_prefix list_emb_append_mono)
qed

lemma empty_side_kept:
  assumes "interest (parsedTags (product c)) = [] \<or> style (parsedTags (product c)) = []"
  shows "diversify (pre @ [c]) = diversify pre @ [c]"
  using assms by (auto simp: diversify_snoc)

lemma carriers_le_count:
  "length (filter (\<lambda>item. v \<in> set (category (parsedTags (product item))) \<and> Q item) sel)
     \<le> running_count category sel v"
proof (induction sel)
  case Nil
  show ?case by (simp add: running_count_def)
next
  case (Cons a sel)
  have "v \<in> set (category (parsedTags (product a))) \<Longrightarrow>
        1 \<le> count_list (category (parsedTags (product a))) v"
    using count_list_0_iff [of "category (parsedTags (product a))" v] by linarith
  with Cons show ?case
    by (auto simp: running_count_def)
qed

text \<open>
  What the filter does bound, with its \<^verbatim>\<open>&&\<close> of the two flags: no more than two
  selected items carry the same interest value together with the same style value, since
  the third would find both at their limit.
\<close>

lemma diversify_pair_cap:
  assumes "i \<notin> set object_prototype_keys" and "s \<notin> set object_prototype_keys"
  shows "length (filter (carries_both i s) (diversify xs)) \<le> 2"
proof (induction xs rule: rev_induct)
  case Nil
  show ?case by (simp add: diversify_def diversify_init_def)
next
  case (snoc x xs)
  let ?sel = "diversify xs"
  show ?case
  proof (cases "diversify (xs @ [x]) = ?sel @ [x] \<and> carries_both i s x")
    case False
    with snoc show ?thesis
      by (auto simp: diversify_snoc split: if_splits)
  next
    case True
    then have acc: "\<not> ((\<exists>i\<in>set (interest (parsedTags (product x))). capped interest ?sel i) \<and>
         (\<exists>s\<in>set (style (parsedTags (product x))). capped style ?sel s))"
      by (auto simp: diversify_snoc split: if_splits)
    from True have "i \<in> set (interest (parsedTags (product x)))"
      and "s \<in> set (style (parsedTags (product x)))"
      by (simp_all add: carries_both_def)
    with acc have "\<not> capped interest ?sel i \<or> \<not> capped style ?sel s"
      by blast
    with assms have "running_count interest ?sel i < 2 \<or> running_count style ?sel s < 2"
      by (auto simp: capped_def)
    moreover have "length (filter (carries_both i s) ?sel) \<le> running_count interest ?sel i"
      unfolding carries_both_def by (rule carriers_le_count)
    moreover have "carries_both i s =
        (\<lambda>item. s \<in> set (style (parsedTags (product item))) \<and>
                i \<in> set (interest (parsedTags (product item))))"
      by (auto simp: carries_both_def fun_eq_iff)
    then have "length (filter (carries_both i s) ?sel) \<le> running_count style ?sel s"
      using carriers_le_count [where v = s and category = style and sel = ?sel
          and Q = "\<lambda>item. i \<in> set (interest (parsedTags (product item)))"]
      by simp
    ultimately have "length (filter (carries_both i s) ?sel) < 2"
      by linarith
    with True show ?thesis by simp
  qed
qed

text \<open>
  A value that is the name of an inherited property is never seen at its limit: the
  count for \<^verbatim>\<open>constructor\<close> starts as a function and stays a string, so three cards
  with that interest and one style are all kept. The properties below leave such values
  aside.
\<close>

lemma inherited_name_never_capped:
  "diversify three_constructors = three_constructors \<and>
   interestCounts (diversify_loop three_constructors diversify_init) ''constructor'' = NotNumeric \<and>
   styleCounts (diversify_loop three_constructors diversify_init) ''cute'' = Num 3"
  by code_simp

text \<open>
  Claim C1, as the specification states it, fails: after two cute frog cards a card with
  the interests frogs and dogs and the style cute is skipped, although its interest
  \<open>dogs\<close> has not reached the cap. One value at its limit in each of the two arrays is
  enough to skip.
\<close>

theorem skip_rule_counterexample:
  "diversify (two_cute_frogs @ [frog_and_dog]) = diversify two_cute_frogs \<and>
   \<not> claimed_skip (diversify two_cute_frogs) frog_and_dog \<and>
   \<not> 2 \<le> running_count interest (diversify two_cute_frogs) ''dogs''"
  by code_simp

text \<open>
  Claim C1, amended: a candidate is skipped if and only if at least one of its interest
  values has reached the cap of 2 among the items already selected and at least one of
  its style values has reached the cap of 2; every other candidate is accepted, and an
  accepted candidate increments the count of each of its interest and style values, once
  for every occurrence. This is stated for candidates whose values are not names that a
  JavaScript object inherits (such as \<^verbatim>\<open>constructor\<close>), for which the counting object
  never holds a number.
\<close>

theorem diversify_skip_rule:
  assumes "set (interest (parsedTags (product c))) \<inter> set object_prototype_keys = {}"
    and "set (style (parsedTags (product c))) \<inter> set object_prototype_keys = {}"
  shows
    "let before = diversify_loop pre diversify_init;
         after = diversify_loop (pre @ [c]) diversify_init;
         interests = interest (parsedTags (product c));
         styles = style (parsedTags (product c))
     in if (\<exists>i\<in>set interests. 2 \<le> running_count interest (result before) i) \<and>
           (\<exists>s\<in>set styles. 2 \<le> running_count style (result before) s)
        then after = before
        else result after = result before @ [c] \<and>
             (\<forall>v. interestCounts after v
                    = (increment ^^ count_list interests v) (interestCounts before v)) \<and>
             (\<forall>v. styleCounts after v
                    = (increment ^^ count_list styles v) (styleCounts before v))"
proof -
  let ?before = "diversify_loop pre diversify_init"
  have after: "diversify_loop (pre @ [c]) diversify_init = diversify_step ?before c"
    by (simp add: diversify_loop_append)
  have i: "limit_reached (interestCounts ?before) max_per_interest (interest (parsedTags (product c)))
        \<longleftrightarrow> (\<exists>i\<in>set (interest (parsedTags (product c))).
               2 \<le> running_count interest (result ?before) i)"
    using assms(1)
    by (auto simp: limit_reached_iff counts_tally at_least_tally max_per_interest_def diversify_def)
  have s: "limit_reached (styleCounts ?before) max_per_style (style (parsedTags (product c)))
        \<longleftrightarrow> (\<exists>s\<in>set (style (parsedTags (product c))).
               2 \<le> running_count style (result ?before) s)"
    using assms(2)
    by (auto simp: limit_reached_iff counts_tally at_least_tally max_per_style_def diversify_def)
  show ?thesis
    unfolding Let_def after
    by (simp add: diversify_step_def Let_def i s update_counts_apply)
qed

theorem diversify_skip_rule_witness:
  "set (interest (parsedTags (product third_cute_frog))) \<inter> set object_prototype_keys = {} \<and>
   set (style (parsedTags (product third_cute_frog))) \<inter> set object_prototype_keys = {} \<and>
   diversify_loop (two_cute_frogs @ [third_cute_frog]) diversify_init
     = diversify_loop two_cute_frogs diversify_init \<and>
   set (interest (parsedTags (product bold_frog))) \<inter> set object_prototype_keys = {} \<and>
   set (style (parsedTags (product bold_frog))) \<inter> set object_prototype_keys = {} \<and>
   result (diversify_loop (two_cute_frogs @ [bold_frog]) diversify_init)
     = result (diversify_loop two_cute_frogs diversify_init) @ [bold_frog] \<and>
   interestCounts (diversify_loop two_cute_frogs diversify_init) ''frogs'' = Num 2 \<and>
   interestCounts (diversify_loop (two_cute_frogs @ [bold_frog]) diversify_init) ''frogs'' = Num 3 \<and>
   styleCounts (diversify_loop (two_cute_frogs @ [bold_frog]) diversify_init) ''bold'' = Num 1"
proof -
  let ?before = "diversify_loop two_cute_frogs diversify_init"
  have t1: "set (interest (parsedTags (product third_cute_frog))) \<inter> set object_prototype_keys = {}"
    and t2: "set (style (parsedTags (product third_cute_frog))) \<inter> set object_prototype_keys = {}"
    and b1: "set (interest (parsedTags (product bold_frog))) \<inter> set object_prototype_keys = {}"
    and b2: "set (style (parsedTags (product bold_frog))) \<inter> set object_prototype_keys = {}"
    by code_simp+
  have full: "(\<exists>i\<in>set (interest (parsedTags (product third_cute_frog))).
                 2 \<le> running_count interest (result ?before) i) \<and>
              (\<exists>s\<in>set (style (parsedTags (product third_cute_frog))).
                 2 \<le> running_count style (result ?before) s)"
    by code_simp
  have room: "\<not> (\<exists>s\<in>set (style (parsedTags (product bold_frog))).
                 2 \<le> running_count style (result ?before) s)"
    by code_simp
  have tags: "interest (parsedTags (product bold_frog)) = [''frogs'']"
    "style (parsedTags (product bold_frog)) = [''bold'']"
    by code_simp+
  have now: "interestCounts ?before ''frogs'' = Num 2" "styleCounts ?before ''bold'' = Undefined"
    by code_simp+
  have skipped: "diversify_loop (two_cute_frogs @ [third_cute_frog]) diversify_init = ?before"
    using diversify_skip_rule [OF t1 t2, of two_cute_frogs] full
    by (simp add: Let_def)
  have kept: "result (diversify_loop (two_cute_frogs @ [bold_frog]) diversify_init)
        = result ?before @ [bold_frog] \<and>
      interestCounts (diversify_loop (two_cute_frogs @ [bold_frog]) diversify_init) ''frogs'' = Num 3 \<and>
      styleCounts (diversify_loop (two_cute_frogs @ [bold_frog]) diversify_init) ''bold'' = Num 1"
    using diversify_skip_rule [OF b1 b2, of two_cute_frogs] room
    by (simp add: Let_def tags now)
  from t1 t2 b1 b2 skipped kept now show ?thesis
    by simp
qed

text \<open>
  Claim C8: for every input list of scored candidates, the output of \<^const>\<open>diversify\<close> is a
  subsequence of its input: every output element occurs in the input, the relative order
  is kept, and no element is duplicated or introduced.
\<close>

theorem diversify_is_subsequence: "subseq (diversify scoredProducts) scoredProducts"
  by (rule diversify_subseq)

theorem diversify_is_subsequence_witness:
  "subseq (diversify (two_cute_frogs @ [third_cute_frog, bold_frog]))
          (two_cute_frogs @ [third_cute_frog, bold_frog]) \<and>
   diversify (two_cute_frogs @ [third_cute_frog, bold_frog]) = two_cute_frogs @ [bold_frog]"
proof -
  have "diversify (two_cute_frogs @ [third_cute_frog, bold_frog]) = two_cute_frogs @ [bold_frog]"
    by code_simp
  with diversify_is_subsequence [of "two_cute_frogs @ [third_cute_frog, bold_frog]"]
  show ?thesis by simp
qed

text \<open>
  Claim C9: a candidate whose interest array and style array are both empty is never
  skipped, whatever has been selected before it; and a candidate with an empty interest
  array can be skipped only if one of its style values is at the cap, and the other way
  round. The last two are stated in the contrapositive: with one array empty and no value
  of the other at the cap, the candidate is kept. (By \<open>empty_side_kept\<close> a candidate with
  one empty array is in fact always kept.)
\<close>

theorem untagged_candidate_kept:
  "(interest (parsedTags (product c)) = [] \<and> style (parsedTags (product c)) = []
      \<longrightarrow> diversify (pre @ [c]) = diversify pre @ [c]) \<and>
   (interest (parsedTags (product c)) = [] \<and>
    \<not> (\<exists>s\<in>set (style (parsedTags (product c))). 2 \<le> running_count style (diversify pre) s)
      \<longrightarrow> diversify (pre @ [c]) = diversify pre @ [c]) \<and>
   (style (parsedTags (product c)) = [] \<and>
    \<not> (\<exists>i\<in>set (interest (parsedTags (product c))). 2 \<le> running_count interest (diversify pre) i)
      \<longrightarrow> diversify (pre @ [c]) = diversify pre @ [c])"
  by (simp add: empty_side_kept)

theorem untagged_candidate_kept_witness:
  "interest (parsedTags (product plain_card)) = [] \<and>
   style (parsedTags (product plain_card)) = [] \<and>
   diversify (two_cute_frogs @ [plain_card]) = diversify two_cute_frogs @ [plain_card] \<and>
   interest (parsedTags (product bold_card)) = [] \<and>
   \<not> (\<exists>s\<in>set (style (parsedTags (product bold_card))).
         2 \<le> running_count style (diversify two_cute_frogs) s) \<and>
   diversify (two_cute_frogs @ [bold_card]) = diversify two_cute_frogs @ [bold_card] \<and>
   style (parsedTags (product dog_card)) = [] \<and>
   \<not> (\<exists>i\<in>set (interest (parsedTags (product dog_card))).
         2 \<le> running_count interest (diversify two_cute_frogs) i) \<and>
   diversify (two_cute_frogs @ [dog_card]) = diversify two_cute_frogs @ [dog_card]"
proof -
  have p: "interest (parsedTags (product plain_card)) = []"
     "style (parsedTags (product plain_card)) = []"
    by code_simp+
  have b: "interest (parsedTags (product bold_card)) = []"
    "\<not> (\<exists>s\<in>set (style (parsedTags (product bold_card))).
         2 \<le> running_count style (diversify two_cute_frogs) s)"
    by code_simp+
  have d: "style (parsedTags (product dog_card)) = []"
    "\<not> (\<exists>i\<in>set (interest (parsedTags (product dog_card))).
         2 \<le> running_count interest (diversify two_cute_frogs) i)"
    by code_simp+
  from p b d untagged_candidate_kept [of plain_card two_cute_frogs]
    untagged_candidate_kept [of bold_card two_cute_frogs]
    untagged_candidate_kept [of dog_card two_cute_frogs]
  show ?thesis by blast
qed

section \<open>Scoring\<close>

lemma jaccard_Nil: "jaccardSimilarity [] ys = 0" "jaccardSimilarity xs [] = 0"
  by (simp_all add: jaccardSimilarity_def)

lemma jaccard_commute: "jaccardSimilarity xs ys = jaccardSimilarity ys xs"
proof -
  have "{x \<in> set xs. x \<in> set ys} = {x \<in> set ys. x \<in> set xs}"
    by blast
  then show ?thesis
    by (simp add: jaccardSimilarity_def Let_def Un_commute disj_commute)
qed

lemma score_interest:
  "scoreProduct p a ''interest'' = 3 * contribution interest 3 p a"
  by (simp add: scoreProduct_def contribution_def TAG_WEIGHTS_def jaccard_Nil)

lemma score_occasion:
  "scoreProduct p a ''occasion'' = 3 * contribution occasion 2 p a"
  by (simp add: scoreProduct_def contribution_def TAG_WEIGHTS_def jaccard_Nil)

lemma score_similar:
  "scoreProduct p a ''similar'' =
     contribution interest 3 p a + contribution occasion 2 p a + contribution recipient 2 p a
       + contribution style 1 p a + contribution humour (1 / 2) p a"
  by (simp add: scoreProduct_def contribution_def TAG_WEIGHTS_def jaccard_Nil Let_def)

text \<open>
  Claim C6: for every pair of parsed tag maps, the score in \<^verbatim>\<open>'interest'\<close> mode is exactly
  3 times the interest contribution (interest Jaccard times the base weight 3) that the
  pair receives in \<^verbatim>\<open>'similar'\<close> mode, and no other category contributes in that mode:
  the score does not change when the other four arrays are replaced on both sides.
  Likewise for \<^verbatim>\<open>'occasion'\<close> mode with the occasion category and its base weight 2.
\<close>

theorem mode_amplification:
  "scoreProduct p a ''interest'' = 3 * contribution interest 3 p a \<and>
   scoreProduct p a ''occasion'' = 3 * contribution occasion 2 p a \<and>
   scoreProduct p a ''similar'' =
     contribution interest 3 p a + contribution occasion 2 p a + contribution recipient 2 p a
       + contribution style 1 p a + contribution humour (1 / 2) p a \<and>
   scoreProduct (p\<lparr>occasion := o1, recipient := r1, style := s1, humour := h1\<rparr>)
                (a\<lparr>occasion := o2, recipient := r2, style := s2, humour := h2\<rparr>) ''interest''
     = scoreProduct p a ''interest'' \<and>
   scoreProduct (p\<lparr>interest := i1, recipient := r1, style := s1, humour := h1\<rparr>)
                (a\<lparr>interest := i2, recipient := r2, style := s2, humour := h2\<rparr>) ''occasion''
     = scoreProduct p a ''occasion''"
  by (simp add: score_interest score_occasion score_similar contribution_def)

theorem mode_amplification_witness:
  "contribution interest 3 frog_dog_thanks frog_birthday = 3 / 2 \<and>
   scoreProduct frog_dog_thanks frog_birthday ''interest'' = 9 / 2 \<and>
   contribution occasion 2 frog_dog_thanks frog_birthday = 0 \<and>
   scoreProduct frog_dog_thanks frog_birthday ''occasion'' = 0 \<and>
   scoreProduct frog_dog_thanks frog_birthday ''similar'' = 5 / 2"
proof -
  have c: "contribution interest 3 frog_dog_thanks frog_birthday = 3 / 2"
    "contribution occasion 2 frog_dog_thanks frog_birthday = 0"
    "contribution recipient 2 frog_dog_thanks frog_birthday = 0"
    "contribution style 1 frog_dog_thanks frog_birthday = 1"
    "contribution humour (1 / 2) frog_dog_thanks frog_birthday = 0"
    by code_simp+
  have "scoreProduct frog_dog_thanks frog_birthday ''interest'' = 9 / 2"
    using mode_amplification [of frog_dog_thanks frog_birthday, THEN conjunct1]
    by (simp add: c)
  moreover have "scoreProduct frog_dog_thanks frog_birthday ''occasion'' = 0"
    using mode_amplification [of frog_dog_thanks frog_birthday, THEN conjunct2, THEN conjunct1]
    by (simp add: c)
  moreover have "scoreProduct frog_dog_thanks frog_birthday ''similar'' = 5 / 2"
    using mode_amplification [of frog_dog_thanks frog_birthday,
        THEN conjunct2, THEN conjunct2, THEN conjunct1]
    by (simp add: c)
  ultimately show ?thesis
    using c by simp
qed

text \<open>
  Claim C10: the scoring function is symmetric: for every mode and every pair of parsed
  tag maps, \<^verbatim>\<open>scoreProduct(a, b, mode) = scoreProduct(b, a, mode)\<close>.
\<close>

theorem score_symmetric:
  "scoreProduct a b mode = scoreProduct b a mode"
  by (simp add: scoreProduct_def Let_def jaccard_commute [of "interest a"]
      jaccard_commute [of "occasion a"] jaccard_commute [of "recipient a"]
      jaccard_commute [of "style a"] jaccard_commute [of "humour a"] conj_commute)

theorem score_symmetric_witness:
  "scoreProduct frog_dog_thanks frog_birthday ''similar''
     = scoreProduct frog_birthday frog_dog_thanks ''similar'' \<and>
   scoreProduct frog_birthday frog_dog_thanks ''similar'' = 5 / 2 \<and>
   scoreProduct frog_dog_thanks frog_birthday ''interest''
     = scoreProduct frog_birthday frog_dog_thanks ''interest'' \<and>
   scoreProduct frog_birthday frog_dog_thanks ''interest'' = 9 / 2"
proof -
  have "scoreProduct frog_birthday frog_dog_thanks ''similar'' = 5 / 2"
    "scoreProduct frog_birthday frog_dog_thanks ''interest'' = 9 / 2"
    by code_simp+
  with score_symmetric [of frog_dog_thanks frog_birthday "''similar''"]
    score_symmetric [of frog_dog_thanks frog_birthday "''interest''"]
  show ?thesis by simp
qed

section \<open>Recommendations\<close>


text \<open>The scoring chain leaves the anchor out, and so does everything selected from it.\<close>

lemma selection_excludes_anchor:
  "anchorHandle \<notin> set (map (\<lambda>item. handle (product item))
                          (selection ps anchorHandle anchorTags mode))"
proof -
  have "set (diversify (scored ps anchorHandle anchorTags mode))
          \<subseteq> set (scored ps anchorHandle anchorTags mode)"
    using list_emb_set [OF diversify_subseq] by blast
  then have "set (selection ps anchorHandle anchorTags mode)
          \<subseteq> set (scored ps anchorHandle anchorTags mode)"
    unfolding selection_def using set_take_subset by fast
  moreover have "\<forall>item\<in>set (scored ps anchorHandle anchorTags mode).
                   handle (product item) \<noteq> anchorHandle"
    by (auto simp: scored_def)
  ultimately show ?thesis by auto
qed

text \<open>
  Claim C2 (in the list returned by \<^verbatim>\<open>getRecommendations\<close> no interest value appears
  across more than 2 returned items, unless the eligible pool held fewer than 2 such
  items) fails on the code. The filter is documented as \<^verbatim>\<open>max 2 per interest/style\<close>
  and configured with \<^verbatim>\<open>max_per_interest: 2\<close>, but it skips only under
  \<^verbatim>\<open>skipInterest && skipStyle\<close>: with the anchor \<open>a\<close> and three more frog cards that
  carry no style, the interest value \<open>frogs\<close> reaches its limit after two, no style value
  ever does, and all three are returned, from a pool of three. With six more frog cards
  the whole rail is frog cards.
\<close>

theorem interest_cap_exceeded:
  "recommendations (map to_product plain_frogs) offline ''a'' ''similar'' = [''b'', ''c'', ''d''] \<and>
   length (returned_with (map to_product plain_frogs)
             (recommendations (map to_product plain_frogs) offline ''a'' ''similar'') ''frogs'') = 3 \<and>
   length (pool_with (map to_product plain_frogs) ''a'' ''frogs'') = 3 \<and>
   \<not> interest_cap_claim (map to_product plain_frogs) ''a''
       (recommendations (map to_product plain_frogs) offline ''a'' ''similar'') ''frogs'' \<and>
   recommendations (map to_product seven_frogs) offline ''a'' ''similar''
     = [''b'', ''c'', ''d'', ''e'', ''f'', ''g''] \<and>
   \<not> interest_cap_claim (map to_product seven_frogs) ''a''
       (recommendations (map to_product seven_frogs) offline ''a'' ''similar'') ''frogs''"
  by code_simp

text \<open>
  Apart from that, the bestseller backfill is checked against the handles already chosen
  only: of four cute frog cards the filter keeps two, and the backfill brings a third in.
\<close>

lemma backfill_not_diversified:
  "map (\<lambda>item. handle (product item))
     (selection (map to_product cute_frogs) ''a'' (parsedTags (to_product (hd cute_frogs))) ''similar'')
     = [''b'', ''c''] \<and>
   recommendations (map to_product cute_frogs) (shop (drop 3 cute_frogs)) ''a'' ''similar''
     = [''b'', ''c'', ''d'']"
  by code_simp

text \<open>
  Claim C3 (the list returned by \<^verbatim>\<open>getRecommendations\<close> never holds the anchor's own
  handle, also when it is backfilled or comes from the fallback alone) fails on the code.
  The scoring chain leaves the anchor out
  (\<open>selection_excludes_anchor\<close>), but the bestseller backfill is checked against the
  handles already chosen only: with the anchor \<open>a\<close> among the bestsellers, it comes back
  in its own recommendations, after the scored part or, when the snapshot does not hold
  the anchor, at the head of the fallback list.
\<close>

theorem anchor_backfilled:
  "findByHandle (map to_product two_frogs) ''a'' = Some (to_product (hd two_frogs)) \<and>
   recommendations (map to_product two_frogs) (shop bestsellers) ''a'' ''similar''
     = [''b'', ''a'', ''z''] \<and>
   findByHandle (map to_product (tl two_frogs)) ''a'' = None \<and>
   recommendations (map to_product (tl two_frogs)) (shop bestsellers) ''a'' ''similar''
     = [''a'', ''b'', ''z'']"
  by code_simp

section \<open>Loading the catalog\<close>

lemma load_ready:
  assumes "loaded c"
  shows "load c st e = Some (products c, c, st, 0)"
  using assms by (simp add: load_def load_begin_def)

lemma load_begin_fresh:
  assumes "\<not> loaded c" and "\<not> loading c" and "clock e \<le> T + CACHE_DURATION"
  shows "load_begin c (Entry T snapshot) (clock e)
           = (Returned snapshot, c\<lparr>products := snapshot, loaded := True\<rparr>, Entry T snapshot)"
  using assms by (simp add: load_begin_def loadFromCache_def Let_def)

lemma load_begin_stale:
  assumes "\<not> loaded c" and "\<not> loading c" and "clock e > T + CACHE_DURATION"
  shows "load_begin c (Entry T snapshot) (clock e) = (Fetching, c\<lparr>loading := True\<rparr>, NoEntry)"
  using assms by (simp add: load_begin_def loadFromCache_def Let_def)

lemma load_begin_none:
  assumes "\<not> loaded c" and "\<not> loading c"
  shows "load_begin c NoEntry now = (Fetching, c\<lparr>loading := True\<rparr>, NoEntry)"
  using assms by (simp add: load_begin_def loadFromCache_def Let_def)




text \<open>
  Claim C4, as the specification states it, fails twice. A persisted entry written at
  time 0 is still adopted, with no fetch, by a call at time 1800000, which is the capture
  time plus the 30 minutes: the entry is dropped only when its age is greater than
  \<^const>\<open>CACHE_DURATION\<close>. And an instance that has loaded (here by a fetch at time 0) answers
  from memory at time 3600000 with no fetch: \<^verbatim>\<open>load()\<close> returns at its first line when
  \<^verbatim>\<open>loaded\<close> is set, and nothing ever looks at the age of the products in memory.
\<close>

theorem cache_expiry_counterexample:
  "load new_catalog (Entry 0 (map to_product two_frogs))
        (visit 1800000 (shop plain_frogs MAX_PRODUCTS) offline)
     = Some (map to_product two_frogs, ready_frogs, Entry 0 (map to_product two_frogs), 0) \<and>
   load new_catalog NoEntry (visit 0 (shop two_frogs MAX_PRODUCTS) offline)
     = Some (map to_product two_frogs, ready_frogs, Entry 0 (map to_product two_frogs), 1) \<and>
   load ready_frogs (Entry 0 (map to_product two_frogs))
        (visit 3600000 (shop plain_frogs MAX_PRODUCTS) offline)
     = Some (map to_product two_frogs, ready_frogs, Entry 0 (map to_product two_frogs), 0)"
  by code_simp

text \<open>
  Claim C4, amended: for a persisted entry captured at time \<open>T\<close>, a \<^verbatim>\<open>load()\<close> call on
  an instance that has neither loaded nor is loading treats the entry as unusable at any
  time greater than \<open>T\<close> plus 30 minutes (it removes the entry and goes on exactly as with
  no entry, issuing one fetch), and at any time up to and including \<open>T\<close> plus 30 minutes
  adopts the entry's products without fetching. An instance that has loaded returns the
  products it holds in memory at any time, without fetching.
\<close>

theorem cache_expiry:
  "(\<not> loaded c \<and> \<not> loading c \<and> T + 1800000 < clock e \<longrightarrow>
      load c (Entry T snapshot) e = load c NoEntry e \<and>
      (\<exists>ps c' st'. load c (Entry T snapshot) e = Some (ps, c', st', 1))) \<and>
   (\<not> loaded c \<and> \<not> loading c \<and> clock e \<le> T + 1800000 \<longrightarrow>
      load c (Entry T snapshot) e
        = Some (snapshot, c\<lparr>products := snapshot, loaded := True\<rparr>, Entry T snapshot, 0)) \<and>
   (loaded c \<longrightarrow> load c st e = Some (products c, c, st, 0))"
proof -
  have "load c (Entry T snapshot) e = load c NoEntry e \<and>
      (\<exists>ps c' st'. load c (Entry T snapshot) e = Some (ps, c', st', 1))"
    if "\<not> loaded c" "\<not> loading c" "T + 1800000 < clock e"
    using that load_begin_stale [of c T e snapshot] load_begin_none [of c "clock e"]
    by (auto simp: load_def CACHE_DURATION_def split: prod.splits)
  moreover have "load c (Entry T snapshot) e
        = Some (snapshot, c\<lparr>products := snapshot, loaded := True\<rparr>, Entry T snapshot, 0)"
    if "\<not> loaded c" "\<not> loading c" "clock e \<le> T + 1800000"
    using that load_begin_fresh [of c e T snapshot]
    by (simp add: load_def CACHE_DURATION_def)
  ultimately show ?thesis
    using load_ready by blast
qed

theorem cache_expiry_witness:
  "load new_catalog (Entry 0 (map to_product two_frogs))
        (visit 1800001 (shop plain_frogs MAX_PRODUCTS) offline)
     = load new_catalog NoEntry (visit 1800001 (shop plain_frogs MAX_PRODUCTS) offline) \<and>
   load new_catalog NoEntry (visit 1800001 (shop plain_frogs MAX_PRODUCTS) offline)
     = Some (map to_product plain_frogs,
             \<lparr>products = map to_product plain_frogs, loading = False, loaded = True\<rparr>,
             Entry 1800001 (map to_product plain_frogs), 1) \<and>
   load new_catalog (Entry 0 (map to_product two_frogs))
        (visit 1799999 (shop plain_frogs MAX_PRODUCTS) offline)
     = Some (map to_product two_frogs,
             new_catalog\<lparr>products := map to_product two_frogs, loaded := True\<rparr>,
             Entry 0 (map to_product two_frogs), 0) \<and>
   load ready_frogs NoEntry (visit 1800001 (shop plain_frogs MAX_PRODUCTS) offline)
     = Some (products ready_frogs, ready_frogs, NoEntry, 0)"
proof -
  let ?late = "visit 1800001 (shop plain_frogs MAX_PRODUCTS) offline"
  let ?early = "visit 1799999 (shop plain_frogs MAX_PRODUCTS) offline"
  let ?snap = "map to_product two_frogs"
  have stale: "\<not> loaded new_catalog \<and> \<not> loading new_catalog \<and> 0 + 1800000 < clock ?late"
    by (simp add: new_catalog_def visit_def)
  have fresh: "\<not> loaded new_catalog \<and> \<not> loading new_catalog \<and> clock ?early \<le> 0 + 1800000"
    by (simp add: new_catalog_def visit_def)
  have ready: "loaded ready_frogs"
    by (simp add: ready_frogs_def)
  have "load new_catalog (Entry 0 ?snap) ?late = load new_catalog NoEntry ?late"
    using cache_expiry [of new_catalog 0 ?late ?snap] stale by blast
  moreover have "load new_catalog NoEntry ?late
     = Some (map to_product plain_frogs,
             \<lparr>products = map to_product plain_frogs, loading = False, loaded = True\<rparr>,
             Entry 1800001 (map to_product plain_frogs), 1)"
    by code_simp
  moreover have "load new_catalog (Entry 0 ?snap) ?early
     = Some (?snap, new_catalog\<lparr>products := ?snap, loaded := True\<rparr>, Entry 0 ?snap, 0)"
    using cache_expiry [of new_catalog 0 ?early ?snap] fresh by blast
  moreover have "load ready_frogs NoEntry ?late = Some (products ready_frogs, ready_frogs, NoEntry, 0)"
    using cache_expiry [of ready_frogs 0 ?late ?snap NoEntry] ready by blast
  ultimately show ?thesis
    by (intro conjI)
qed









section \<open>Two callers, one failing fetch\<close>

lemma run_append: "run s (evs @ evs') = run (run s evs) evs'"
  by (induction evs arbitrary: s) simp_all

lemma tick_idle: "\<not> loaded (cat s) \<Longrightarrow> step s (Tick caller) = s"
  by simp

lemma ticks_idle:
  assumes "\<not> loaded (cat s)"
  shows "run s (map Tick callers) = s"
  using assms by (induction callers) (simp_all del: step.simps add: tick_idle)

lemma load_begin_empty:
  "load_begin new_catalog NoEntry now = (Fetching, new_catalog\<lparr>loading := True\<rparr>, NoEntry)"
  by (simp add: load_begin_def loadFromCache_def new_catalog_def)

lemma load_begin_loading:
  "load_begin (new_catalog\<lparr>loading := True\<rparr>) st now
     = (Waiting, new_catalog\<lparr>loading := True\<rparr>, st)"
  by (simp add: load_begin_def new_catalog_def)

lemma load_end_failed:
  "read_products resp = Inl err \<Longrightarrow>
   load_end (new_catalog\<lparr>loading := True\<rparr>) st resp w now = ([], new_catalog, st)"
  by (simp add: load_end_def new_catalog_def)

lemma load_end_success:
  "read_products resp = Inr raw \<Longrightarrow>
   load_end (new_catalog\<lparr>loading := True\<rparr>) st resp True now
     = (map to_product raw, \<lparr>products = map to_product raw, loading = False, loaded = True\<rparr>,
        Entry now (map to_product raw))"
  by (simp add: load_end_def new_catalog_def saveToCache_def Let_def)

lemma first_call:
  "step (start NoEntry) (Call a t0)
     = \<lparr>cat = new_catalog\<lparr>loading := True\<rparr>, store = NoEntry, in_flight = Some a,
        waiters = [], resolved = [], fetches = 1\<rparr>"
  by (simp add: start_def load_begin_empty)

lemma second_call:
  "step \<lparr>cat = new_catalog\<lparr>loading := True\<rparr>, store = NoEntry, in_flight = Some a,
        waiters = [], resolved = [], fetches = 1\<rparr> (Call b t1)
     = \<lparr>cat = new_catalog\<lparr>loading := True\<rparr>, store = NoEntry, in_flight = Some a,
        waiters = [b], resolved = [], fetches = 1\<rparr>"
  by (simp add: load_begin_loading)

lemma settle_failed:
  "read_products resp = Inl err \<Longrightarrow>
   step \<lparr>cat = new_catalog\<lparr>loading := True\<rparr>, store = NoEntry, in_flight = Some a,
        waiters = [b], resolved = [], fetches = 1\<rparr> (Settle resp w t2)
     = \<lparr>cat = new_catalog, store = NoEntry, in_flight = None,
        waiters = [b], resolved = [(a, [])], fetches = 1\<rparr>"
  by (simp add: load_end_failed)

lemma settle_success:
  "read_products resp = Inr raw \<Longrightarrow>
   step \<lparr>cat = new_catalog\<lparr>loading := True\<rparr>, store = NoEntry, in_flight = Some a,
        waiters = [b], resolved = [], fetches = 1\<rparr> (Settle resp True t2)
     = \<lparr>cat = \<lparr>products = map to_product raw, loading = False, loaded = True\<rparr>,
        store = Entry t2 (map to_product raw), in_flight = None,
        waiters = [b], resolved = [(a, map to_product raw)], fetches = 1\<rparr>"
  by (simp add: load_end_success)

text \<open>
  When the fetch succeeds, the second caller gets the same products at its next tick, and
  one fetch was issued.
\<close>

lemma coalesced_on_success:
  assumes "read_products resp = Inr raw"
  shows "run (start NoEntry) [Call a t0, Call b t1, Settle resp True t2, Tick b]
     = \<lparr>cat = \<lparr>products = map to_product raw, loading = False, loaded = True\<rparr>,
        store = Entry t2 (map to_product raw), in_flight = None, waiters = [],
        resolved = [(a, map to_product raw), (b, map to_product raw)], fetches = 1\<rparr>"
  by (simp only: run.simps first_call second_call settle_success [OF assms]) simp

text \<open>
  Claim C5 (of two or more concurrent \<^verbatim>\<open>load()\<close> calls one fetches, and every caller
  ends with the result of that fetch, the empty list when it fails) fails on the code
  when the fetch fails. Caller \<open>a\<close> calls \<^verbatim>\<open>load()\<close> with no
  cache entry, caller \<open>b\<close> calls it before the fetch has settled, and the fetch fails.
  One fetch was issued and \<open>a\<close> receives the empty list; but \<open>b\<close> polls for
  \<^verbatim>\<open>loaded\<close>, which the failure path never sets, so after any number of ticks of any
  callers \<open>b\<close> is still waiting and has received nothing.
\<close>

theorem waiter_never_resolved:
  assumes "read_products resp = Inl err"
  shows "run (start NoEntry) ([Call a t0, Call b t1, Settle resp w t2] @ map Tick callers)
     = \<lparr>cat = new_catalog, store = NoEntry, in_flight = None, waiters = [b],
        resolved = [(a, [])], fetches = 1\<rparr>"
proof -
  let ?after = "\<lparr>cat = new_catalog, store = NoEntry, in_flight = None, waiters = [b],
        resolved = [(a, [])], fetches = 1\<rparr>"
  have first: "run (start NoEntry) [Call a t0, Call b t1, Settle resp w t2] = ?after"
    by (simp only: run.simps first_call second_call settle_failed [OF assms])
  have rest: "run ?after (map Tick callers) = ?after"
    by (rule ticks_idle) (simp add: new_catalog_def)
  show ?thesis
    unfolding run_append first by (rule rest)
qed

theorem waiter_never_resolved_witness:
  "read_products (HttpResponse False None) = Inl NotOk \<and>
   run (start NoEntry)
       ([Call 0 10, Call 1 20, Settle (HttpResponse False None) True 300] @ map Tick [1, 0, 1, 1])
     = \<lparr>cat = new_catalog, store = NoEntry, in_flight = None, waiters = [1],
        resolved = [(0, [])], fetches = 1\<rparr>"
proof -
  have f: "read_products (HttpResponse False None) = Inl NotOk"
    by simp
  from f waiter_never_resolved [OF f, of 0 10 1 20 True 300 "[1, 0, 1, 1]"]
  show ?thesis by (intro conjI)
qed

end
